theory Spec2Isabelle
  imports Main
begin

section \<open>Python values\<close>

text \<open>
  A Python \<open>str\<close> is a sequence of Unicode code points, so it is modelled as a list of
  naturals (the status labels of the program are Cyrillic, beyond one byte).
  \<open>ascii\<close> writes an ASCII literal as such a list.
\<close>

type_synonym codepoint = nat
type_synonym str = "codepoint list"

definition ascii :: "string \<Rightarrow> str" where
  "ascii s = map of_char s"

text \<open>
  The values \<open>json.load\<close> produces. A float is never inspected by the program, so its
  type is left abstract. A dict is an association list read with \<open>map_of\<close>; in a real
  Python dict the keys are distinct.
\<close>

typedecl pyfloat

datatype json =
    JNull
  | JBool bool
  | JInt int
  | JFloat pyfloat
  | JStr str
  | JList "json list"
  | JDict "(str \<times> json) list"

text \<open>The exception classes the program can raise, by class name.\<close>

datatype error =
    KeyError str
  | ValueError
  | TypeError
  | AttributeError
  | OSError
  | JSONDecodeError

definition getitem :: "(str \<times> json) list \<Rightarrow> str \<Rightarrow> error + json" where
  \<comment> \<open>\<open>data[key]\<close> on a dict\<close>
  "getitem data key = (case map_of data key of None \<Rightarrow> Inl (KeyError key) | Some v \<Rightarrow> Inr v)"

section \<open>The datetime library\<close>

text \<open>
  A naive \<open>datetime\<close> object (no tzinfo: the program only builds them with
  \<open>datetime.now()\<close> and \<open>datetime.strptime\<close>). The constructor accepts exactly the field
  values of \<open>valid_datetime\<close> and raises ValueError otherwise.
\<close>

record datetime =
  year :: nat
  month :: nat
  day :: nat
  hour :: nat
  minute :: nat
  second :: nat
  microsecond :: nat

definition is_leap :: "nat \<Rightarrow> bool" where
  "is_leap y = (y mod 4 = 0 \<and> (y mod 100 \<noteq> 0 \<or> y mod 400 = 0))"

definition days_in_month :: "nat \<Rightarrow> nat \<Rightarrow> nat" where
  "days_in_month y m =
     (if m = 2 then (if is_leap y then 29 else 28)
      else if m = 4 \<or> m = 6 \<or> m = 9 \<or> m = 11 then 30 else 31)"

definition valid_datetime :: "datetime \<Rightarrow> bool" where
  "valid_datetime d =
     (1 \<le> year d \<and> year d \<le> 9999 \<and> 1 \<le> month d \<and> month d \<le> 12 \<and>
      1 \<le> day d \<and> day d \<le> days_in_month (year d) (month d) \<and>
      hour d < 24 \<and> minute d < 60 \<and> second d < 60 \<and> microsecond d < 1000000)"

definition new_datetime :: "nat \<Rightarrow> nat \<Rightarrow> nat \<Rightarrow> nat \<Rightarrow> nat \<Rightarrow> nat \<Rightarrow> nat \<Rightarrow> error + datetime" where
  \<comment> \<open>\<open>datetime(year, month, day, hour, minute, second, microsecond)\<close>\<close>
  "new_datetime y m d h mi s us =
     (let dt = \<lparr>year = y, month = m, day = d, hour = h, minute = mi, second = s,
                microsecond = us\<rparr>
      in if valid_datetime dt then Inr dt else Inl ValueError)"

subsection \<open>strftime\<close>





subsection \<open>strptime\<close>

text \<open>
  \<open>datetime.strptime(s, "%Y-%m-%d %H:%M:%S")\<close> compiles the format into a regular
  expression, matches it at the start of \<open>s\<close>, refuses text left over after the match,
  converts the six groups with \<open>int\<close> and calls the datetime constructor. The regular
  expression is
  \<^verbatim>\<open>(?P<Y>\d\d\d\d)-(?P<m>1[0-2]|0[1-9]|[1-9])-(?P<d>3[0-1]|[1-2]\d|0[1-9]|[1-9]| [1-9])\s+\<close>
  \<^verbatim>\<open>(?P<H>2[0-3]|[0-1]\d|\d):(?P<M>[0-5]\d|\d):(?P<S>6[0-1]|[0-5]\d|\d)\<close>
  where \<open>\d\<close> is any Unicode decimal digit and \<open>\s\<close> any Unicode white space.
\<close>

definition decimal_zeros :: "codepoint list" where
  \<comment> \<open>the digit zero of every Unicode decimal digit run (category Nd, Unicode 14)\<close>
  "decimal_zeros =
     [48, 1632, 1776, 1984, 2406, 2534, 2662, 2790, 2918, 3046, 3174, 3302, 3430, 3558, 3664,
      3792, 3872, 4160, 4240, 6112, 6160, 6470, 6608, 6784, 6800, 6992, 7088, 7232, 7248,
      42528, 43216, 43264, 43472, 43504, 43600, 44016, 65296, 66720, 68912, 69734, 69872,
      69942, 70096, 70384, 70736, 70864, 71248, 71360, 71472, 71904, 72016, 72784, 73040,
      73120, 92768, 92864, 93008, 120782, 120792, 120802, 120812, 120822, 123200, 123632,
      125264, 130032]"

definition decimal_zero_of :: "codepoint \<Rightarrow> codepoint option" where
  "decimal_zero_of c = find (\<lambda>z. z \<le> c \<and> c < z + 10) decimal_zeros"

definition py_isdecimal :: "codepoint \<Rightarrow> bool" where
  "py_isdecimal c = (decimal_zero_of c \<noteq> None)"

definition digit_value :: "codepoint \<Rightarrow> nat" where
  "digit_value c = (case decimal_zero_of c of None \<Rightarrow> 0 | Some z \<Rightarrow> c - z)"

definition py_isspace :: "codepoint \<Rightarrow> bool" where
  "py_isspace c =
     (c \<in> set [9, 10, 11, 12, 13, 28, 29, 30, 31, 32, 133, 160, 5760, 8192, 8193, 8194, 8195,
               8196, 8197, 8198, 8199, 8200, 8201, 8202, 8232, 8233, 8239, 8287, 12288])"

definition py_int :: "str \<Rightarrow> nat" where
  \<comment> \<open>\<open>int(s)\<close> for a run of decimal digits, leading white space skipped\<close>
  "py_int s = foldl (\<lambda>acc c. 10 * acc + digit_value c) 0 (dropWhile py_isspace s)"

datatype cclass =
    Ch char           \<comment> \<open>one ASCII character\<close>
  | Rg char char      \<comment> \<open>\<open>[a-b]\<close>\<close>
  | D                 \<comment> \<open>\<open>\d\<close>\<close>

fun in_class :: "cclass \<Rightarrow> codepoint \<Rightarrow> bool" where
  "in_class (Ch a) c = (c = of_char a)"
| "in_class (Rg a b) c = (of_char a \<le> c \<and> c \<le> of_char b)"
| "in_class D c = py_isdecimal c"

datatype item =
    Lit char                   \<comment> \<open>a literal character of the format\<close>
  | Spaces                     \<comment> \<open>\<open>\s+\<close>\<close>
  | Group "cclass list list"   \<comment> \<open>a named group: alternatives, each a run of classes\<close>

fun match_seq :: "cclass list \<Rightarrow> str \<Rightarrow> (str \<times> str) option" where
  "match_seq [] s = Some ([], s)"
| "match_seq (k # ks) [] = None"
| "match_seq (k # ks) (c # cs) =
     (if in_class k c
      then (case match_seq ks cs of None \<Rightarrow> None | Some (cap, r) \<Rightarrow> Some (c # cap, r))
      else None)"

fun first_some :: "('a \<Rightarrow> 'b option) \<Rightarrow> 'a list \<Rightarrow> 'b option" where
  "first_some f [] = None"
| "first_some f (x # xs) = (case f x of None \<Rightarrow> first_some f xs | Some y \<Rightarrow> Some y)"

text \<open>
  Backtracking match in the order of Python's \<open>re\<close>: alternatives left to right, \<open>\s+\<close>
  longest first. The result is the captured groups and the text after the match.
\<close>

fun rmatch :: "item list \<Rightarrow> str \<Rightarrow> (str list \<times> str) option" where
  "rmatch [] s = Some ([], s)"
| "rmatch (Lit a # items) s =
     (case s of [] \<Rightarrow> None
      | c # cs \<Rightarrow> if c = of_char a then rmatch items cs else None)"
| "rmatch (Spaces # items) s =
     first_some (\<lambda>n. rmatch items (drop n s))
       (rev [1 ..< Suc (length (takeWhile py_isspace s))])"
| "rmatch (Group alts # items) s =
     first_some
       (\<lambda>alt. case match_seq alt s of None \<Rightarrow> None
          | Some (cap, r) \<Rightarrow>
              (case rmatch items r of None \<Rightarrow> None
               | Some (caps, r') \<Rightarrow> Some (cap # caps, r')))
       alts"

definition re_Y :: item where
  "re_Y = Group [[D, D, D, D]]"

definition re_m :: item where
  "re_m = Group [[Ch CHR ''1'', Rg CHR ''0'' CHR ''2''], [Ch CHR ''0'', Rg CHR ''1'' CHR ''9''],
                 [Rg CHR ''1'' CHR ''9'']]"

definition re_d :: item where
  "re_d = Group [[Ch CHR ''3'', Rg CHR ''0'' CHR ''1''], [Rg CHR ''1'' CHR ''2'', D],
                 [Ch CHR ''0'', Rg CHR ''1'' CHR ''9''], [Rg CHR ''1'' CHR ''9''],
                 [Ch CHR '' '', Rg CHR ''1'' CHR ''9'']]"

definition re_H :: item where
  "re_H = Group [[Ch CHR ''2'', Rg CHR ''0'' CHR ''3''], [Rg CHR ''0'' CHR ''1'', D], [D]]"

definition re_M :: item where
  "re_M = Group [[Rg CHR ''0'' CHR ''5'', D], [D]]"

definition re_S :: item where
  "re_S = Group [[Ch CHR ''6'', Rg CHR ''0'' CHR ''1''], [Rg CHR ''0'' CHR ''5'', D], [D]]"

definition format_regex :: "item list" where
  "format_regex =
     [re_Y, Lit CHR ''-'', re_m, Lit CHR ''-'', re_d, Spaces,
      re_H, Lit CHR '':'', re_M, Lit CHR '':'', re_S]"

definition strptime :: "str \<Rightarrow> error + datetime" where
  "strptime s =
     (case rmatch format_regex s of
        None \<Rightarrow> Inl ValueError
      | Some (caps, rest) \<Rightarrow>
          if rest \<noteq> [] then Inl ValueError
          else (case caps of
                  [gY, gm, gd, gH, gM, gS] \<Rightarrow>
                    new_datetime (py_int gY) (py_int gm) (py_int gd)
                                 (py_int gH) (py_int gM) (py_int gS) 0
                | _ \<Rightarrow> Inl ValueError))"

section \<open>Tasks\<close>

datatype TaskStatus = NEW | IN_PROGRESS | IN_REVIEW | COMPLETED | CANCELED

fun status_value :: "TaskStatus \<Rightarrow> str" where
  \<comment> \<open>the \<open>.value\<close> of each member: the Russian display label, as code points\<close>
  "status_value NEW = [1053, 1086, 1074, 1072, 1103]"
| "status_value IN_PROGRESS = [1042, 1099, 1087, 1086, 1083, 1085, 1103, 1077, 1090, 1089, 1103]"
| "status_value IN_REVIEW = [1056, 1077, 1074, 1100, 1102]"
| "status_value COMPLETED = [1042, 1099, 1087, 1086, 1083, 1085, 1077, 1085, 1086]"
| "status_value CANCELED = [1054, 1090, 1084, 1077, 1085, 1077, 1085, 1086]"

definition members :: "TaskStatus list" where
  "members = [NEW, IN_PROGRESS, IN_REVIEW, COMPLETED, CANCELED]"

definition TaskStatus_call :: "json \<Rightarrow> error + TaskStatus" where
  \<comment> \<open>\<open>TaskStatus(v)\<close>: the member whose value equals \<open>v\<close>, else ValueError\<close>
  "TaskStatus_call v =
     (case find (\<lambda>m. v = JStr (status_value m)) members of
        None \<Rightarrow> Inl ValueError
      | Some m \<Rightarrow> Inr m)"

text \<open>
  The dataclass annotates \<open>title\<close> and \<open>description\<close> as \<open>str\<close>, but Python does not
  check annotations and \<open>from_dict\<close> stores whatever value the record holds, so both
  fields carry a JSON value.
\<close>

record Task =
  title :: json
  description :: json
  status :: TaskStatus
  created_date :: datetime
  status_changed_date :: datetime


definition strptime_call :: "json \<Rightarrow> error + datetime" where
  \<comment> \<open>\<open>datetime.strptime(v, ...)\<close> on any value: TypeError unless \<open>v\<close> is a str\<close>
  "strptime_call v = (case v of JStr s \<Rightarrow> strptime s | _ \<Rightarrow> Inl TypeError)"

text \<open>
  The keyword arguments are evaluated left to right, so the first failing one decides
  the exception. Subscripting a value that is not a dict with a str raises TypeError.
\<close>

fun from_dict :: "json \<Rightarrow> error + Task" where
  "from_dict (JDict data) =
     (case getitem data (ascii ''title'') of Inl e \<Rightarrow> Inl e | Inr t \<Rightarrow>
      case getitem data (ascii ''description'') of Inl e \<Rightarrow> Inl e | Inr d \<Rightarrow>
      case getitem data (ascii ''status'') of Inl e \<Rightarrow> Inl e | Inr sv \<Rightarrow>
      case TaskStatus_call sv of Inl e \<Rightarrow> Inl e | Inr st \<Rightarrow>
      case getitem data (ascii ''created_date'') of Inl e \<Rightarrow> Inl e | Inr cv \<Rightarrow>
      case strptime_call cv of Inl e \<Rightarrow> Inl e | Inr cd \<Rightarrow>
      case getitem data (ascii ''status_changed_date'') of Inl e \<Rightarrow> Inl e | Inr scv \<Rightarrow>
      case strptime_call scv of Inl e \<Rightarrow> Inl e | Inr scd \<Rightarrow>
        Inr \<lparr>title = t, description = d, status = st, created_date = cd,
             status_changed_date = scd\<rparr>)"
| "from_dict _ = Inl TypeError"

section \<open>The task manager\<close>

text \<open>
  A history entry is one of the two f-strings of the program, kept with the values it
  interpolates: the one of \<open>add_task\<close> has \<open>{task.title}\<close>, the one of
  \<open>change_task_status\<close> has \<open>{task.title}\<close> and \<open>{new_status.value}\<close>.
  Every task in the list is an object of its own (the add branch and \<open>from_dict\<close> build a
  fresh one each time), so the list is a list of values.
\<close>

datatype history_entry =
    Added json
  | StatusChanged json TaskStatus

record TaskManager =
  tasks :: "Task list"
  history :: "history_entry list"

definition TaskManager_init :: "Task list option \<Rightarrow> TaskManager" where
  \<comment> \<open>\<open>self.tasks = tasks or []\<close>; \<open>self.history = []\<close>\<close>
  "TaskManager_init arg =
     \<lparr>tasks = (case arg of None \<Rightarrow> [] | Some ts \<Rightarrow> if ts = [] then [] else ts),
      history = []\<rparr>"

definition add_task :: "TaskManager \<Rightarrow> Task \<Rightarrow> TaskManager" where
  "add_task tm task =
     tm\<lparr>tasks := tasks tm @ [task], history := history tm @ [Added (title task)]\<rparr>"

text \<open>
  The \<open>for ... else\<close> loop of \<open>change_task_status\<close>: the first task whose title equals
  the argument is updated and the loop breaks; \<open>None\<close> is the \<open>else\<close> branch. \<open>now\<close> is
  what \<open>datetime.now()\<close> returns when it is called.
\<close>

fun change_loop ::
  "Task list \<Rightarrow> str \<Rightarrow> TaskStatus \<Rightarrow> datetime \<Rightarrow> (Task list \<times> history_entry) option" where
  "change_loop [] task_title new_status now = None"
| "change_loop (task # rest) task_title new_status now =
     (if title task = JStr task_title
      then Some (task\<lparr>status := new_status, status_changed_date := now\<rparr> # rest,
                 StatusChanged (title task) new_status)
      else (case change_loop rest task_title new_status now of
              None \<Rightarrow> None
            | Some (rest', entry) \<Rightarrow> Some (task # rest', entry)))"

definition change_task_status ::
  "TaskManager \<Rightarrow> str \<Rightarrow> TaskStatus \<Rightarrow> datetime \<Rightarrow> error option \<times> TaskManager" where
  \<comment> \<open>the exception raised, if any, and the manager after the call\<close>
  "change_task_status tm task_title new_status now =
     (case change_loop (tasks tm) task_title new_status now of
        None \<Rightarrow> (Some ValueError, tm)
      | Some (tasks', entry) \<Rightarrow>
          (None, tm\<lparr>tasks := tasks', history := history tm @ [entry]\<rparr>))"

definition cancel_task :: "TaskManager \<Rightarrow> str \<Rightarrow> datetime \<Rightarrow> error option \<times> TaskManager" where
  "cancel_task tm task_title now = change_task_status tm task_title CANCELED now"


section \<open>Files\<close>

text \<open>
  A file holds either text that \<open>json.load\<close> parses, given by the document it parses to,
  or other text. \<open>json.dump\<close> followed by \<open>json.load\<close> gives the document back, which is
  why a written file is modelled by the document itself. Opening a missing file for
  reading, or a file that cannot be written for writing, raises OSError.
\<close>

datatype file_content = Unparseable | Document json

record filesystem =
  files :: "str \<Rightarrow> file_content option"
  writable :: "str \<Rightarrow> bool"


fun py_iter :: "json \<Rightarrow> error + json list" where
  \<comment> \<open>what a \<open>for\<close> over the value yields: list items, characters of a str, keys of a dict\<close>
  "py_iter (JList xs) = Inr xs"
| "py_iter (JStr s) = Inr (map (\<lambda>c. JStr [c]) s)"
| "py_iter (JDict kvs) = Inr (map (\<lambda>kv. JStr (fst kv)) kvs)"
| "py_iter _ = Inl TypeError"

fun from_dict_all :: "json list \<Rightarrow> error + Task list" where
  \<comment> \<open>the list comprehension \<open>[Task.from_dict(task_data) for task_data in ...]\<close>\<close>
  "from_dict_all [] = Inr []"
| "from_dict_all (x # xs) =
     (case from_dict x of Inl e \<Rightarrow> Inl e
      | Inr t \<Rightarrow> (case from_dict_all xs of Inl e \<Rightarrow> Inl e | Inr ts \<Rightarrow> Inr (t # ts)))"

fun load_document :: "json \<Rightarrow> error + TaskManager" where
  \<comment> \<open>the part of \<open>load_from_file\<close> after \<open>json.load\<close>; only a dict has \<open>.get\<close>\<close>
  "load_document (JDict data) =
     (case py_iter (case map_of data (ascii ''tasks'') of None \<Rightarrow> JList [] | Some v \<Rightarrow> v) of
        Inl e \<Rightarrow> Inl e
      | Inr items \<Rightarrow>
          (case from_dict_all items of Inl e \<Rightarrow> Inl e
           | Inr ts \<Rightarrow> Inr (TaskManager_init (Some ts))))"
| "load_document _ = Inl AttributeError"

definition load_from_file :: "filesystem \<Rightarrow> str \<Rightarrow> error + TaskManager" where
  "load_from_file fs file_path =
     (case files fs file_path of
        None \<Rightarrow> Inl OSError
      | Some Unparseable \<Rightarrow> Inl JSONDecodeError
      | Some (Document data) \<Rightarrow> load_document data)"

section \<open>Vocabulary of the properties\<close>

definition required_keys :: "str list" where
  "required_keys =
     [ascii ''title'', ascii ''description'', ascii ''status'', ascii ''created_date'',
      ascii ''status_changed_date'']"

definition known_label :: "json \<Rightarrow> bool" where
  \<comment> \<open>the value is one of the five labels\<close>
  "known_label v = list_ex (\<lambda>m. v = JStr (status_value m)) members"





definition restrict_keys :: "str list \<Rightarrow> (str \<times> json) list \<Rightarrow> (str \<times> json) list" where
  "restrict_keys ks data = filter (\<lambda>kv. fst kv \<in> set ks) data"

text \<open>
  The format of the specification, \<open>YYYY-MM-DD HH:MM:SS\<close>, read literally: nineteen
  characters, an ASCII digit wherever the template has \<open>d\<close> and the template's own
  character elsewhere.
\<close>

definition exact_format :: "str \<Rightarrow> bool" where
  "exact_format s =
     list_all2 (\<lambda>p c. if p = CHR ''d'' then 48 \<le> c \<and> c \<le> 57 else c = of_char p)
       ''dddd-dd-dd dd:dd:dd'' s"

text \<open>
  When the specification says deserialization fails: a required key is missing, the
  status is not a known label, or a timestamp is not in the exact format.
\<close>

definition spec_format_error :: "(str \<times> json) list \<Rightarrow> bool" where
  "spec_format_error data =
     (list_ex (\<lambda>k. map_of data k = None) required_keys \<or>
      (case map_of data (ascii ''status'') of None \<Rightarrow> False | Some v \<Rightarrow> \<not> known_label v) \<or>
      (case map_of data (ascii ''created_date'') of
         None \<Rightarrow> False | Some (JStr s) \<Rightarrow> \<not> exact_format s | Some _ \<Rightarrow> True) \<or>
      (case map_of data (ascii ''status_changed_date'') of
         None \<Rightarrow> False | Some (JStr s) \<Rightarrow> \<not> exact_format s | Some _ \<Rightarrow> True))"

text \<open>
  When the code fails: the same, with the timestamp test replaced by what \<open>strptime\<close>
  accepts.
\<close>

definition strptime_rejects :: "json \<Rightarrow> bool" where
  "strptime_rejects v = (case v of JStr s \<Rightarrow> isl (strptime s) | _ \<Rightarrow> True)"

definition code_format_error :: "(str \<times> json) list \<Rightarrow> bool" where
  "code_format_error data =
     (list_ex (\<lambda>k. map_of data k = None) required_keys \<or>
      (case map_of data (ascii ''status'') of None \<Rightarrow> False | Some v \<Rightarrow> \<not> known_label v) \<or>
      (case map_of data (ascii ''created_date'') of
         None \<Rightarrow> False | Some v \<Rightarrow> strptime_rejects v) \<or>
      (case map_of data (ascii ''status_changed_date'') of
         None \<Rightarrow> False | Some v \<Rightarrow> strptime_rejects v))"

section \<open>Sample data\<close>

definition morning :: datetime where
  "morning = \<lparr>year = 2024, month = 1, day = 5, hour = 10, minute = 30, second = 0,
              microsecond = 0\<rparr>"

definition later :: datetime where
  "later = \<lparr>year = 2024, month = 2, day = 29, hour = 23, minute = 59, second = 59,
            microsecond = 250000\<rparr>"

definition write_spec :: Task where
  "write_spec = \<lparr>title = JStr (ascii ''Write spec''), description = JStr (ascii ''first draft''),
                 status = NEW, created_date = morning, status_changed_date = morning\<rparr>"

definition review :: Task where
  "review = \<lparr>title = JStr (ascii ''Review''), description = JStr [],
             status = IN_REVIEW, created_date = morning, status_changed_date = later\<rparr>"

definition sample_store :: TaskManager where
  "sample_store = \<lparr>tasks = [review, write_spec, write_spec], history = []\<rparr>"

definition sample_path :: str where
  "sample_path = ascii ''tasks.json''"


definition unpadded_record :: "(str \<times> json) list" where
  \<comment> \<open>a record whose first timestamp has unpadded fields\<close>
  "unpadded_record =
     [(ascii ''title'', JStr (ascii ''Write spec'')),
      (ascii ''description'', JStr []),
      (ascii ''status'', JStr (status_value NEW)),
      (ascii ''created_date'', JStr (ascii ''2024-1-5 3:4:5'')),
      (ascii ''status_changed_date'', JStr (ascii ''2024-01-05 03:04:05''))]"

definition february_30_record :: "(str \<times> json) list" where
  \<comment> \<open>a record whose first timestamp is in the exact format and names no real day\<close>
  "february_30_record =
     [(ascii ''title'', JStr (ascii ''Write spec'')),
      (ascii ''description'', JStr []),
      (ascii ''status'', JStr (status_value NEW)),
      (ascii ''created_date'', JStr (ascii ''2024-02-30 00:00:00'')),
      (ascii ''status_changed_date'', JStr (ascii ''2024-01-05 03:04:05''))]"



definition versioned_disk :: filesystem where
  \<comment> \<open>a disk whose only file holds the document \<open>{"version": 1}\<close>\<close>
  "versioned_disk =
     \<lparr>files = (\<lambda>p. if p = sample_path
                     then Some (Document (JDict [(ascii ''version'', JInt 1)])) else None),
      writable = (\<lambda>p. True)\<rparr>"

definition extra_fields :: "(str \<times> json) list" where
  "extra_fields = [(ascii ''priority'', JInt 3), (ascii ''tags'', JList [JStr (ascii ''doc'')])]"

section \<open>The datetime round trip\<close>











lemma match_Lit:
  assumes "rmatch items r = Some res"
  shows "rmatch (Lit a # items) (of_char a # r) = Some res"
  using assms by simp



















section \<open>Serialising one task\<close>



lemma TaskStatus_call_value: "TaskStatus_call (JStr (status_value s)) = Inr s"
  by (cases s) (simp_all add: TaskStatus_call_def members_def)








section \<open>Saving and loading a store\<close>











section \<open>Changing a status\<close>

lemma change_loop_first:
  "i < length ts \<Longrightarrow> title (ts ! i) = JStr x \<Longrightarrow> (\<forall>j<i. title (ts ! j) \<noteq> JStr x) \<Longrightarrow>
   change_loop ts x s now =
     Some (ts[i := (ts ! i)\<lparr>status := s, status_changed_date := now\<rparr>],
           StatusChanged (JStr x) s)"
proof (induction ts arbitrary: i)
  case Nil
  then show ?case by simp
next
  case (Cons t ts)
  show ?case
  proof (cases i)
    case 0
    with Cons.prems show ?thesis by simp
  next
    case (Suc k)
    with Cons.prems have "title t \<noteq> JStr x" by auto
    moreover from Suc Cons.prems have "k < length ts" "title (ts ! k) = JStr x"
        "\<forall>j<k. title (ts ! j) \<noteq> JStr x" by auto
    ultimately show ?thesis using Cons.IH[of k] Suc by simp
  qed
qed

lemma change_loop_missing:
  "\<forall>t \<in> set ts. title t \<noteq> JStr x \<Longrightarrow> change_loop ts x s now = None"
  by (induction ts) simp_all

text \<open>
  Claim C3. When some task's title equals the argument and the first such task is at
  index \<open>i\<close>, \<open>change_task_status\<close> raises nothing and the task list after the call is
  the list before with the task at index \<open>i\<close> replaced by itself with the new status and
  with status_changed_date set to the current time: its title, description and
  created_date, and every other task (later tasks of the same title too), are as before.
  One history entry is appended.
\<close>

theorem change_task_status_first_match:
  assumes "i < length (tasks tm)" and "title (tasks tm ! i) = JStr x"
    and "\<forall>j<i. title (tasks tm ! j) \<noteq> JStr x"
  shows "change_task_status tm x s now =
           (None,
            tm\<lparr>tasks := (tasks tm)[i := (tasks tm ! i)\<lparr>status := s,
                                                     status_changed_date := now\<rparr>],
               history := history tm @ [StatusChanged (JStr x) s]\<rparr>)"
  using change_loop_first[OF assms] by (simp add: change_task_status_def)

text \<open>
  Claim C4. When no task's title equals the argument, \<open>change_task_status\<close> raises
  ValueError (the program's not-found error) and the manager after the call is the
  manager before it: no task and no history entry is touched.
\<close>

theorem change_task_status_missing:
  assumes "\<forall>t \<in> set (tasks tm). title t \<noteq> JStr x"
  shows "change_task_status tm x s now = (Some ValueError, tm)"
  using change_loop_missing[OF assms] by (simp add: change_task_status_def)

text \<open>
  Claim C9. \<open>cancel_task\<close> with a title is \<open>change_task_status\<close> with that title and
  \<open>CANCELED\<close>: the same exception or none, the same tasks and the same history after it.
\<close>

theorem cancel_task_is_change_task_status:
  "cancel_task tm x now = change_task_status tm x CANCELED now"
  by (simp add: cancel_task_def)

section \<open>When deserialisation fails\<close>

lemma isl_TaskStatus_call: "isl (TaskStatus_call v) = (\<not> known_label v)"
proof (cases "find (\<lambda>m. v = JStr (status_value m)) members")
  case None
  then have "\<not> known_label v"
    unfolding known_label_def list_ex_iff find_None_iff by simp
  with None show ?thesis by (simp add: TaskStatus_call_def)
next
  case (Some m)
  then have "find (\<lambda>m. v = JStr (status_value m)) members \<noteq> None" by simp
  then have "known_label v"
    unfolding known_label_def list_ex_iff find_None_iff by blast
  with Some show ?thesis by (simp add: TaskStatus_call_def)
qed

lemma isl_strptime_call: "isl (strptime_call v) = strptime_rejects v"
  by (cases v) (simp_all add: strptime_call_def strptime_rejects_def)

lemma TaskStatus_call_cases:
  "TaskStatus_call v = Inl e \<Longrightarrow> \<not> known_label v"
  "TaskStatus_call v = Inr s \<Longrightarrow> known_label v"
  using isl_TaskStatus_call[of v] by auto

lemma strptime_call_cases:
  "strptime_call v = Inl e \<Longrightarrow> strptime_rejects v"
  "strptime_call v = Inr d \<Longrightarrow> \<not> strptime_rejects v"
  using isl_strptime_call[of v] by auto

text \<open>
  Claim C5, as amended. For every record, \<open>from_dict\<close> fails exactly when a required
  key is missing, or the status value is not one of the five labels, or a timestamp value
  is not a string that \<open>strptime\<close> accepts for the format; a failure returns no task.
\<close>

theorem from_dict_fails_iff:
  "isl (from_dict (JDict data)) = code_format_error data"
  by (auto simp add: getitem_def code_format_error_def required_keys_def
           split: option.splits sum.splits
           dest: TaskStatus_call_cases strptime_call_cases)

lemmas strptime_eval =
  strptime_def format_regex_def re_Y_def re_m_def re_d_def re_H_def re_M_def re_S_def ascii_def
  py_isdecimal_def decimal_zero_of_def decimal_zeros_def py_isspace_def py_int_def
  digit_value_def new_datetime_def valid_datetime_def days_in_month_def is_leap_def

lemma strptime_unpadded:
  "strptime (ascii ''2024-1-5 3:4:5'') =
     Inr \<lparr>year = 2024, month = 1, day = 5, hour = 3, minute = 4, second = 5, microsecond = 0\<rparr>"
  by (simp add: strptime_eval)

lemma strptime_padded:
  "strptime (ascii ''2024-01-05 03:04:05'') =
     Inr \<lparr>year = 2024, month = 1, day = 5, hour = 3, minute = 4, second = 5, microsecond = 0\<rparr>"
  by (simp add: strptime_eval)

lemma strptime_february_30: "strptime (ascii ''2024-02-30 00:00:00'') = Inl ValueError"
  by (simp add: strptime_eval)

lemma known_label_NEW: "known_label (JStr (status_value NEW))"
  by (simp add: known_label_def members_def)

lemma exact_format_samples:
  "\<not> exact_format (ascii ''2024-1-5 3:4:5'')"
  "exact_format (ascii ''2024-01-05 03:04:05'')"
  "exact_format (ascii ''2024-02-30 00:00:00'')"
  by (simp_all add: exact_format_def ascii_def)

lemma map_of_unpadded_record:
  "map_of unpadded_record (ascii ''title'') = Some (JStr (ascii ''Write spec''))"
  "map_of unpadded_record (ascii ''description'') = Some (JStr [])"
  "map_of unpadded_record (ascii ''status'') = Some (JStr (status_value NEW))"
  "map_of unpadded_record (ascii ''created_date'') = Some (JStr (ascii ''2024-1-5 3:4:5''))"
  "map_of unpadded_record (ascii ''status_changed_date'') = Some (JStr (ascii ''2024-01-05 03:04:05''))"
  by (simp_all add: unpadded_record_def ascii_def)

lemma map_of_february_30_record:
  "map_of february_30_record (ascii ''title'') = Some (JStr (ascii ''Write spec''))"
  "map_of february_30_record (ascii ''description'') = Some (JStr [])"
  "map_of february_30_record (ascii ''status'') = Some (JStr (status_value NEW))"
  "map_of february_30_record (ascii ''created_date'') = Some (JStr (ascii ''2024-02-30 00:00:00''))"
  "map_of february_30_record (ascii ''status_changed_date'') = Some (JStr (ascii ''2024-01-05 03:04:05''))"
  by (simp_all add: february_30_record_def ascii_def)

lemma from_dict_unpadded_record:
  "from_dict (JDict unpadded_record) =
     Inr \<lparr>title = JStr (ascii ''Write spec''), description = JStr [], status = NEW,
          created_date = \<lparr>year = 2024, month = 1, day = 5, hour = 3, minute = 4, second = 5, microsecond = 0\<rparr>,
          status_changed_date = \<lparr>year = 2024, month = 1, day = 5, hour = 3, minute = 4, second = 5, microsecond = 0\<rparr>\<rparr>"
  by (simp add: getitem_def map_of_unpadded_record TaskStatus_call_value strptime_call_def
                strptime_unpadded strptime_padded del: status_value.simps)

lemma from_dict_february_30_record: "from_dict (JDict february_30_record) = Inl ValueError"
  by (simp add: getitem_def map_of_february_30_record TaskStatus_call_value strptime_call_def
                strptime_february_30 del: status_value.simps)

theorem from_dict_fails_iff_witness:
  "code_format_error february_30_record \<and> isl (from_dict (JDict february_30_record)) \<and>
   \<not> code_format_error unpadded_record \<and> \<not> isl (from_dict (JDict unpadded_record))"
proof -
  have a: "code_format_error february_30_record"
    by (simp add: code_format_error_def required_keys_def map_of_february_30_record
                  known_label_NEW strptime_rejects_def strptime_february_30
             del: status_value.simps)
  have b: "\<not> code_format_error unpadded_record"
    by (simp add: code_format_error_def required_keys_def map_of_unpadded_record
                  known_label_NEW strptime_rejects_def strptime_unpadded strptime_padded
             del: status_value.simps)
  show ?thesis
    using a b from_dict_fails_iff[of february_30_record] from_dict_fails_iff[of unpadded_record]
    by simp
qed

text \<open>
  Claim C5 as stated fails in both directions. A record whose created_date is
  \<open>2024-1-5 3:4:5\<close> is not in the exact format and is deserialised without error; a
  record whose created_date is \<open>2024-02-30 00:00:00\<close> has every required key, a known
  label and both timestamps in the exact format, and deserialising it raises ValueError.
\<close>

theorem from_dict_fails_iff_counterexample:
  "(\<not> isl (from_dict (JDict unpadded_record)) \<and> spec_format_error unpadded_record) \<and>
   (isl (from_dict (JDict february_30_record)) \<and> \<not> spec_format_error february_30_record)"
proof -
  have a: "\<not> isl (from_dict (JDict unpadded_record))"
    by (simp only: from_dict_unpadded_record) simp
  have b: "spec_format_error unpadded_record"
    by (simp add: spec_format_error_def map_of_unpadded_record exact_format_samples)
  have c: "isl (from_dict (JDict february_30_record))"
    by (simp only: from_dict_february_30_record) simp
  have d: "\<not> spec_format_error february_30_record"
    by (simp add: spec_format_error_def required_keys_def map_of_february_30_record
                  known_label_NEW exact_format_samples del: status_value.simps)
  from a b c d show ?thesis by simp
qed

section \<open>Witnesses for the status changes\<close>

theorem change_task_status_first_match_witness:
  "1 < length (tasks sample_store) \<and> title (tasks sample_store ! 1) = JStr (ascii ''Write spec'') \<and>
   title (tasks sample_store ! 0) \<noteq> JStr (ascii ''Write spec'') \<and>
   change_task_status sample_store (ascii ''Write spec'') COMPLETED later =
     (None, \<lparr>tasks = [review, write_spec\<lparr>status := COMPLETED, status_changed_date := later\<rparr>, write_spec],
             history = [StatusChanged (JStr (ascii ''Write spec'')) COMPLETED]\<rparr>)"
proof -
  have a: "1 < length (tasks sample_store)" by (simp add: sample_store_def)
  have b: "title (tasks sample_store ! 1) = JStr (ascii ''Write spec'')"
    by (simp add: sample_store_def write_spec_def)
  have c: "\<forall>j<1. title (tasks sample_store ! j) \<noteq> JStr (ascii ''Write spec'')"
    by (simp add: sample_store_def review_def ascii_def)
  have d: "title (tasks sample_store ! 0) \<noteq> JStr (ascii ''Write spec'')"
    using c by simp
  show ?thesis
    using a b d change_task_status_first_match[OF a b c, of COMPLETED later]
    by (simp add: sample_store_def)
qed

theorem change_task_status_missing_witness:
  "title review \<noteq> JStr (ascii ''Deploy'') \<and> title write_spec \<noteq> JStr (ascii ''Deploy'') \<and>
   change_task_status sample_store (ascii ''Deploy'') COMPLETED later = (Some ValueError, sample_store)"
proof -
  have a: "\<forall>t \<in> set (tasks sample_store). title t \<noteq> JStr (ascii ''Deploy'')"
    by (simp add: sample_store_def review_def write_spec_def ascii_def)
  have b: "title review \<noteq> JStr (ascii ''Deploy'')" "title write_spec \<noteq> JStr (ascii ''Deploy'')"
    using a by (simp_all add: sample_store_def)
  show ?thesis using b change_task_status_missing[OF a] by simp
qed

theorem cancel_task_is_change_task_status_witness:
  "cancel_task sample_store (ascii ''Write spec'') later =
   change_task_status sample_store (ascii ''Write spec'') CANCELED later"
  by (rule cancel_task_is_change_task_status)

section \<open>Loading a document\<close>

lemma load_document_history: "load_document doc = Inr tm \<Longrightarrow> history tm = []"
  by (cases doc) (auto simp add: TaskManager_init_def split: sum.splits)

text \<open>
  Claim C6. Loading a file whose document is a JSON object with no \<open>tasks\<close> key raises
  nothing and gives a manager with no tasks and an empty history; and whatever the file
  holds, a manager that \<open>load_from_file\<close> returns has an empty history.
\<close>

theorem load_from_file_missing_tasks_key:
  "(files fs file_path = Some (Document (JDict data)) \<and> map_of data (ascii ''tasks'') = None \<longrightarrow>
      load_from_file fs file_path = Inr \<lparr>tasks = [], history = []\<rparr>) \<and>
   (load_from_file fs file_path = Inr tm \<longrightarrow> history tm = [])"
  by (auto simp add: load_from_file_def TaskManager_init_def load_document_history
           split: option.splits file_content.splits)

theorem load_from_file_missing_tasks_key_witness:
  "files versioned_disk sample_path = Some (Document (JDict [(ascii ''version'', JInt 1)])) \<and>
   map_of [(ascii ''version'', JInt 1)] (ascii ''tasks'') = None \<and>
   load_from_file versioned_disk sample_path = Inr \<lparr>tasks = [], history = []\<rparr> \<and>
   history \<lparr>tasks = [], history = []\<rparr> = []"
proof -
  have a: "files versioned_disk sample_path = Some (Document (JDict [(ascii ''version'', JInt 1)]))"
    by (simp add: versioned_disk_def)
  have b: "map_of [(ascii ''version'', JInt 1)] (ascii ''tasks'') = None"
    by (simp add: ascii_def)
  show ?thesis
    using a b load_from_file_missing_tasks_key[of versioned_disk sample_path
        "[(ascii ''version'', JInt 1)]" "\<lparr>tasks = [], history = []\<rparr>"]
    by simp
qed

section \<open>Adding tasks\<close>

lemma foldl_add_task:
  "foldl add_task tm ts =
     tm\<lparr>tasks := tasks tm @ ts, history := history tm @ map (\<lambda>t. Added (title t)) ts\<rparr>"
  by (induction ts arbitrary: tm) (simp_all add: add_task_def)

text \<open>
  Claim C7. \<open>add_task\<close> has no failing path: for every manager and every list of tasks
  added one after the other (whatever their titles, repeated or empty), the tasks after
  are the tasks before followed by the added ones, so the count grows by the number of
  calls; the history grows by one entry per call.
\<close>

theorem add_task_never_rejected:
  "tasks (foldl add_task tm ts) = tasks tm @ ts \<and>
   length (tasks (foldl add_task tm ts)) = length (tasks tm) + length ts \<and>
   length (history (foldl add_task tm ts)) = length (history tm) + length ts \<and>
   history (add_task tm t) = history tm @ [Added (title t)]"
  by (simp add: foldl_add_task) (simp add: add_task_def)

theorem add_task_never_rejected_witness:
  "tasks (foldl add_task sample_store [write_spec, review]) =
     [review, write_spec, write_spec, write_spec, review] \<and>
   length (history (foldl add_task sample_store [write_spec, review])) = 2"
  using add_task_never_rejected[of sample_store "[write_spec, review]" review]
  by (simp add: sample_store_def)




section \<open>Keys the program does not read\<close>

lemma from_dict_cong:
  assumes "\<forall>k \<in> set required_keys. map_of d1 k = map_of d2 k"
  shows "from_dict (JDict d1) = from_dict (JDict d2)"
proof -
  have g: "getitem d1 (ascii ''title'') = getitem d2 (ascii ''title'')"
      "getitem d1 (ascii ''description'') = getitem d2 (ascii ''description'')"
      "getitem d1 (ascii ''status'') = getitem d2 (ascii ''status'')"
      "getitem d1 (ascii ''created_date'') = getitem d2 (ascii ''created_date'')"
      "getitem d1 (ascii ''status_changed_date'') = getitem d2 (ascii ''status_changed_date'')"
    using assms by (simp_all add: getitem_def required_keys_def)
  show ?thesis unfolding from_dict.simps g by (rule refl)
qed

lemma map_of_restrict_keys: "k \<in> set ks \<Longrightarrow> map_of (restrict_keys ks data) k = map_of data k"
  by (induction data) (auto simp add: restrict_keys_def)

lemma map_of_append_extra:
  assumes "k \<notin> fst ` set extra"
  shows "map_of (extra @ data) k = map_of data k \<and> map_of (data @ extra) k = map_of data k"
proof -
  have "map_of extra k = None" using assms by (simp add: map_of_eq_None_iff)
  then show ?thesis by (simp add: map_add_def split: option.splits)
qed

text \<open>
  Claim C10. Keys other than the five required ones are ignored: adding such pairs to a
  record, before or after its own pairs, does not change what \<open>from_dict\<close> returns (the
  same task, or the same exception), and the result is that of the record restricted to
  the five required keys.
\<close>

theorem from_dict_ignores_unknown_keys:
  assumes "fst ` set extra \<inter> set required_keys = {}"
  shows "from_dict (JDict (data @ extra)) = from_dict (JDict data) \<and>
         from_dict (JDict (extra @ data)) = from_dict (JDict data) \<and>
         from_dict (JDict (restrict_keys required_keys (data @ extra))) = from_dict (JDict (data @ extra))"
proof -
  have "\<forall>k \<in> set required_keys. k \<notin> fst ` set extra" using assms by auto
  then have "\<forall>k \<in> set required_keys. map_of (data @ extra) k = map_of data k"
      "\<forall>k \<in> set required_keys. map_of (extra @ data) k = map_of data k"
    using map_of_append_extra[of _ extra data] by blast+
  moreover have "\<forall>k \<in> set required_keys.
      map_of (restrict_keys required_keys (data @ extra)) k = map_of (data @ extra) k"
    by (simp add: map_of_restrict_keys)
  ultimately show ?thesis by (intro conjI from_dict_cong)
qed

lemma extra_fields_not_required: "fst ` set extra_fields \<inter> set required_keys = {}"
  by (simp add: extra_fields_def required_keys_def ascii_def)

theorem from_dict_ignores_unknown_keys_witness:
  "fst ` set extra_fields \<inter> set required_keys = {} \<and>
   from_dict (JDict (unpadded_record @ extra_fields)) = from_dict (JDict unpadded_record) \<and>
   from_dict (JDict (extra_fields @ unpadded_record)) = from_dict (JDict unpadded_record) \<and>
   from_dict (JDict (restrict_keys required_keys (unpadded_record @ extra_fields))) =
     from_dict (JDict (unpadded_record @ extra_fields))"
  using extra_fields_not_required
    from_dict_ignores_unknown_keys[OF extra_fields_not_required, of unpadded_record]
  by (simp del: from_dict.simps)

end
